theory Spec2Isabelle
  imports Main
begin

section \<open>The motion-control backend (\<^verbatim>\<open>src/backend/server.js\<close>)\<close>

text \<open>
  The server is an Express application with three operations: submitting a generation
  task (\<^verbatim>\<open>POST /api/generate\<close>), polling it (\<^verbatim>\<open>GET /api/task/:taskId\<close>) and
  downloading the watermarked result (\<^verbatim>\<open>GET /api/download/:taskId\<close>).
  Each handler is embedded as a function from the process configuration, the outside
  world and the state before the request to the response and the state after it.
  The state holds the local file system, the log of every call that leaves the process
  and the number of times \<^verbatim>\<open>Date.now()\<close> has been read. A JavaScript exception is a
  value of \<open>js_error\<close>; \<^verbatim>\<open>undefined\<close> is \<open>None\<close>.

  The packages the server is built on (Express and its \<^verbatim>\<open>static\<close> middleware, multer,
  axios, the S3 client, \<^verbatim>\<open>jsonwebtoken\<close>, ffmpeg) are not part of the repository. Their
  answers are inputs: a request is what multer hands to the handler, and a remote side
  answers what the world says it answers.
\<close>

subsection \<open>Values, errors and configuration\<close>

type_synonym path = string
type_synonym bytes = string

text \<open>
  An error thrown by axios carries \<^verbatim>\<open>error.response\<close> when the remote side answered
  (its status and its parsed body) and nothing there on a transport failure.
\<close>

record api_error_data =
  err_message :: "string option"
  err_code :: "string option"

record error_response =
  err_status :: nat
  err_data :: "api_error_data option"

datatype js_error =
    TypeError string
  | Error string
  | AxiosError "error_response option" string

fun error_message :: "js_error \<Rightarrow> string" where
  "error_message (TypeError m) = m"
| "error_message (Error m) = m"
| "error_message (AxiosError r m) = m"

fun error_response_data :: "js_error \<Rightarrow> (nat \<times> api_error_data) option" where
  "error_response_data (AxiosError (Some r) m) =
     (case err_data r of None \<Rightarrow> None | Some d \<Rightarrow> Some (err_status r, d))"
| "error_response_data e = None"

text \<open>
  The module-level constants read from \<^verbatim>\<open>process.env\<close> (lines 65 to 79), and
  \<^verbatim>\<open>__dirname\<close>. A variable that is not set is \<open>None\<close>.
\<close>

record config =
  KLING_API_BASE_URL :: "string option"
  KLING_ACCESS_KEY :: "string option"
  KLING_SECRET_KEY :: "string option"
  S3_ENABLED_env :: "string option"
  S3_ENDPOINT :: "string option"
  S3_BUCKET :: "string option"
  dirname :: path

definition KLING_API_BASE :: "config \<Rightarrow> string" where
  "KLING_API_BASE cfg =
     (case KLING_API_BASE_URL cfg of
        None \<Rightarrow> ''https://api.klingai.com''
      | Some u \<Rightarrow> if u = [] then ''https://api.klingai.com'' else u)"

definition S3_ENABLED :: "config \<Rightarrow> bool" where
  "S3_ENABLED cfg = (S3_ENABLED_env cfg = Some ''true'')"

text \<open>The client object exists exactly when the toggle is on; it is \<^verbatim>\<open>null\<close> otherwise.\<close>

definition s3Client :: "config \<Rightarrow> string option option" where
  "s3Client cfg = (if S3_ENABLED cfg then Some (S3_ENDPOINT cfg) else None)"

definition uploadsDir :: "config \<Rightarrow> path" where
  "uploadsDir cfg = dirname cfg @ ''/uploads''"

definition LOGO_PATH :: "config \<Rightarrow> path" where
  "LOGO_PATH cfg = dirname cfg @ ''/assets/logo.png''"

subsection \<open>Strings: \<^verbatim>\<open>trim\<close> and the decimal form of a number\<close>

text \<open>
  \<^verbatim>\<open>String.prototype.trim\<close> removes white space at both ends. Strings are byte lists
  here, so the white space is the ASCII one (tab, line feed, vertical tab, form feed,
  carriage return, space).
\<close>

definition is_space :: "char \<Rightarrow> bool" where
  "is_space c = (of_char c \<in> {9, 10, 11, 12, 13, 32 :: nat})"

definition trim :: "string \<Rightarrow> string" where
  "trim s = rev (dropWhile is_space (rev (dropWhile is_space s)))"

text \<open>
  A non-negative integer converted to a string, as \<^verbatim>\<open>Date.now() + '-'\<close> and a
  template literal do: its decimal digits, most significant first.
\<close>

definition digit :: "nat \<Rightarrow> char" where
  "digit d = ''0123456789'' ! d"

function dec :: "nat \<Rightarrow> string" where
  "dec n = (if n < 10 then [digit n] else dec (n div 10) @ [digit (n mod 10)])"
  by pat_completeness auto
termination
  by (relation "measure id") auto

declare dec.simps [simp del]

subsection \<open>The CORS policy (lines 25 to 40)\<close>

definition allowedOrigins :: "string list" where
  "allowedOrigins =
     [''https://celebrated-heliotrope-1bcaaf.netlify.app'',
      ''http://localhost:3000'',
      ''http://localhost:5500'',
      ''http://127.0.0.1:5500'']"

text \<open>
  The \<^verbatim>\<open>origin\<close> callback given to the \<^verbatim>\<open>cors\<close> middleware. Its argument is the
  request's \<^verbatim>\<open>Origin\<close> header (\<open>None\<close> when the request has none). \<open>Inr True\<close> is
  \<^verbatim>\<open>callback(null, true)\<close>, the request goes on; \<open>Inl e\<close> is \<^verbatim>\<open>callback(e)\<close>, the
  request is refused. \<^verbatim>\<open>!origin\<close> holds for \<^verbatim>\<open>undefined\<close> and for the empty string.
\<close>

definition cors_origin :: "string option \<Rightarrow> js_error + bool" where
  "cors_origin origin =
     (case origin of
        None \<Rightarrow> Inr True
      | Some o' \<Rightarrow>
          if o' = [] then Inr True
          else if o' \<in> set allowedOrigins then Inr True
          else Inl (Error ''Not allowed by CORS''))"

subsection \<open>The token signer (lines 86 to 132)\<close>

text \<open>
  \<^verbatim>\<open>jwt.sign\<close> belongs to the \<^verbatim>\<open>jsonwebtoken\<close> package. A token is modelled
  symbolically, as the header and the payload it was signed over and the key that signed
  them, so that the claims a token asserts can be read back. The package refuses an empty
  key. The payload is the object literal of \<^verbatim>\<open>generateJwtToken\<close>.
\<close>

record jwt_payload =
  iss :: string
  exp :: int
  nbf :: int

record jwt_header =
  jwt_alg :: string
  jwt_typ :: string

datatype jwt = Jwt (header: jwt_header) (claims: jwt_payload) (key: string)

definition jwt_sign :: "jwt_payload \<Rightarrow> string \<Rightarrow> jwt_header \<Rightarrow> js_error + jwt" where
  "jwt_sign payload secret hdr =
     (if secret = [] then Inl (Error ''secretOrPrivateKey must have a value'')
      else Inr (Jwt hdr payload secret))"

text \<open>
  \<open>now\<close> is the value of \<^verbatim>\<open>Date.now()\<close>, in milliseconds; \<open>currentTime\<close> is
  \<^verbatim>\<open>Math.floor(Date.now() / 1000)\<close>. Calling \<^verbatim>\<open>.trim()\<close> on a key that is
  \<^verbatim>\<open>undefined\<close> throws a \<^verbatim>\<open>TypeError\<close>; the access key is read first.
\<close>

definition currentTime :: "nat \<Rightarrow> int" where
  "currentTime now = int (now div 1000)"

definition undefined_trim :: js_error where
  "undefined_trim = TypeError ''Cannot read properties of undefined (reading 'trim')''"

definition generateJwtToken :: "config \<Rightarrow> nat \<Rightarrow> js_error + jwt" where
  "generateJwtToken cfg now =
     (case KLING_ACCESS_KEY cfg of
        None \<Rightarrow> Inl undefined_trim
      | Some access \<Rightarrow>
          let payload = \<lparr>iss = trim access,
                         exp = currentTime now + 1800,
                         nbf = currentTime now - 5\<rparr>
          in (case KLING_SECRET_KEY cfg of
                None \<Rightarrow> Inl undefined_trim
              | Some secret \<Rightarrow>
                  jwt_sign payload (trim secret) \<lparr>jwt_alg = ''HS256'', jwt_typ = ''JWT''\<rparr>))"

record auth_headers =
  content_type :: string
  authorization :: jwt

text \<open>\<open>authorization\<close> is the token after the \<^verbatim>\<open>Bearer\<close> prefix.\<close>

definition getAuthHeaders :: "config \<Rightarrow> nat \<Rightarrow> js_error + auth_headers" where
  "getAuthHeaders cfg now =
     (case generateJwtToken cfg now of
        Inl e \<Rightarrow> Inl e
      | Inr token \<Rightarrow> Inr \<lparr>content_type = ''application/json'', authorization = token\<rparr>)"

subsection \<open>The outside world and the state\<close>

text \<open>A file as multer hands it to the handler (\<^verbatim>\<open>req.files.image[0]\<close>).\<close>

record upload_file =
  originalname :: string
  file_path :: path
  file_size :: nat
  mimetype :: string

record generation_payload =
  prompt :: "string option"
  image_url :: string
  video_url :: string
  character_orientation :: string
  mode :: string
  keep_original_sound :: string

record put_object =
  Bucket :: "string option"
  Key :: string
  Body :: bytes
  ContentType :: string

text \<open>
  What the external API answers: \<^verbatim>\<open>response.data.data\<close> of the submission and of the
  status query. A field the answer lacks is \<open>None\<close>.
\<close>

record created_task =
  task_id :: "string option"
  task_status :: "string option"
  created_at :: "nat option"
  external_task_id :: "string option"

record video =
  url :: "string option"

record task_result =
  videos :: "video list option"

record task_data =
  td_task_status :: "string option"
  td_task_result :: "task_result option"

text \<open>
  Every call that leaves the process is logged, in order: the object written to the remote
  bucket, the two kinds of request to the external API (with the headers they carry), the
  download of the result video, and the run of the external media tool with its
  arguments.
\<close>

datatype event =
    S3Put put_object
  | KlingPost string generation_payload auth_headers
  | KlingGet string auth_headers
  | VideoGet string
  | Ffmpeg "string list"

text \<open>
  How a read stream piped into the response ends: it emits \<^verbatim>\<open>end\<close>, it emits
  \<^verbatim>\<open>error\<close>, or it emits neither (the client closed the connection before the file was
  read to its end).
\<close>

datatype stream_event = StreamEnd | StreamError string | StreamStalled

text \<open>
  The world answers what the program cannot decide: the \<open>k\<close>-th reading of
  \<^verbatim>\<open>Date.now()\<close>, whether the bucket accepts an object (\<open>Some m\<close> is a rejection with
  message \<open>m\<close>), the presigned URL of a key, the answers of the external API, the body
  of the result video, the output of the media tool on an input video, and the fate of
  the response stream.
\<close>

record world =
  clock :: "nat \<Rightarrow> nat"
  s3_send :: "put_object \<Rightarrow> string option"
  s3_presign :: "string \<Rightarrow> string + string"
  kling_post :: "generation_payload \<Rightarrow> js_error + created_task option"
  kling_get :: "string \<Rightarrow> js_error + task_data option"
  video_get :: "string \<Rightarrow> js_error + bytes"
  ffmpeg_run :: "bytes \<Rightarrow> string + bytes"
  stream_outcome :: "path \<Rightarrow> stream_event"

record state =
  fs :: "path \<rightharpoonup> bytes"
  trace :: "event list"
  ticks :: nat

definition Date_now :: "world \<Rightarrow> state \<Rightarrow> nat \<times> state" where
  "Date_now w s = (clock w (ticks s), s\<lparr>ticks := Suc (ticks s)\<rparr>)"

definition emit :: "event \<Rightarrow> state \<Rightarrow> state" where
  "emit e s = s\<lparr>trace := trace s @ [e]\<rparr>"

definition enoent :: "path \<Rightarrow> string" where
  "enoent p = ''ENOENT: no such file or directory, '' @ p"

text \<open>\<^verbatim>\<open>fs.unlink\<close>: removes the file, and rejects when there is none.\<close>

definition unlink :: "path \<Rightarrow> state \<Rightarrow> (js_error + unit) \<times> state" where
  "unlink p s =
     (case fs s p of
        None \<Rightarrow> (Inl (Error (enoent p)), s)
      | Some content \<Rightarrow> (Inr (), s\<lparr>fs := (fs s)(p := None)\<rparr>))"

definition writeFile :: "path \<Rightarrow> bytes \<Rightarrow> state \<Rightarrow> state" where
  "writeFile p content s = s\<lparr>fs := (fs s)(p \<mapsto> content)\<rparr>"

subsection \<open>Names of stored files and of remote objects\<close>

text \<open>
  The \<^verbatim>\<open>filename\<close> callback of the multer disk storage (lines 48 to 51):
  \<^verbatim>\<open>Date.now() + '-' + Math.round(Math.random() * 1E9)\<close> followed by
  \<^verbatim>\<open>path.extname(file.originalname)\<close>. \<open>rnd\<close> is the rounded random number and
  \<open>ext\<close> the extension that \<^verbatim>\<open>path.extname\<close> returned.
\<close>

definition uniqueSuffix :: "nat \<Rightarrow> nat \<Rightarrow> string" where
  "uniqueSuffix now rnd = dec now @ ''-'' @ dec rnd"

definition multer_filename :: "nat \<Rightarrow> nat \<Rightarrow> string \<Rightarrow> string" where
  "multer_filename now rnd ext = uniqueSuffix now rnd @ ext"

text \<open>The key of \<^verbatim>\<open>uploadToS3\<close> (line 153).\<close>

definition s3_key :: "nat \<Rightarrow> string \<Rightarrow> string" where
  "s3_key now fileName = ''kling-uploads/'' @ dec now @ ''-'' @ fileName"

subsection \<open>\<^verbatim>\<open>uploadToS3\<close> and \<^verbatim>\<open>cleanupFiles\<close> (lines 146 to 196)\<close>

text \<open>
  The guard throws outside the \<^verbatim>\<open>try\<close>; everything after it is rethrown with the
  prefix \<^verbatim>\<open>Failed to upload to S3\<close>.
\<close>

definition upload_failed :: "string \<Rightarrow> js_error" where
  "upload_failed m = Error (''Failed to upload to S3: '' @ m)"

definition uploadToS3 ::
  "config \<Rightarrow> world \<Rightarrow> path \<Rightarrow> string \<Rightarrow> string \<Rightarrow> state \<Rightarrow> (js_error + string) \<times> state" where
  "uploadToS3 cfg w filePath fileName contentType s =
     (if \<not> S3_ENABLED cfg \<or> s3Client cfg = None then (Inl (Error ''S3 is not configured''), s)
      else
        case fs s filePath of
          None \<Rightarrow> (Inl (upload_failed (enoent filePath)), s)
        | Some fileContent \<Rightarrow>
            let (now, s1) = Date_now w s;
                key = s3_key now fileName;
                putCommand = \<lparr>Bucket = S3_BUCKET cfg, Key = key,
                              Body = fileContent, ContentType = contentType\<rparr>;
                s2 = emit (S3Put putCommand) s1
            in (case s3_send w putCommand of
                  Some m \<Rightarrow> (Inl (upload_failed m), s2)
                | None \<Rightarrow>
                    (case s3_presign w key of
                       Inl m \<Rightarrow> (Inl (upload_failed m), s2)
                     | Inr presignedUrl \<Rightarrow> (Inr presignedUrl, s2))))"

text \<open>Each file is unlinked in turn; a failed unlink is logged and the loop goes on.\<close>

fun cleanupFiles :: "upload_file list \<Rightarrow> state \<Rightarrow> state" where
  "cleanupFiles [] s = s"
| "cleanupFiles (file # rest) s = cleanupFiles rest (snd (unlink (file_path file) s))"

subsection \<open>Requests and responses\<close>

text \<open>
  \<^verbatim>\<open>req.files\<close> after \<^verbatim>\<open>upload.fields\<close> with \<^verbatim>\<open>maxCount: 1\<close> for both fields: a
  field holds one file or is absent. The form fields of \<^verbatim>\<open>req.body\<close> are strings, or
  absent.
\<close>

record req_files =
  files_image :: "upload_file option"
  files_video :: "upload_file option"

record req_body =
  body_prompt :: "string option"
  body_character_orientation :: "string option"
  body_mode :: "string option"
  body_keep_original_sound :: "string option"

record request =
  files :: "req_files option"
  body :: req_body

text \<open>
  The bodies the handlers send: the \<^verbatim>\<open>success: false\<close> object with its message, the same
  with the upstream code, the created task, the status payload, and the video stream with
  its attachment name and length.
\<close>

datatype response_body =
    Failure string
  | ApiFailure string "string option"
  | Created created_task
  | TaskStatus "task_data option"
  | VideoStream string nat

record response =
  status :: nat
  payload :: response_body

text \<open>A value used as a condition: \<^verbatim>\<open>undefined\<close> and the empty string are false.\<close>

definition truthy :: "string option \<Rightarrow> bool" where
  "truthy v = (case v of None \<Rightarrow> False | Some x \<Rightarrow> x \<noteq> [])"

text \<open>\<^verbatim>\<open>v || d\<close> on a string that may be undefined.\<close>

definition or_else :: "string option \<Rightarrow> string \<Rightarrow> string" where
  "or_else v d = (case v of None \<Rightarrow> d | Some x \<Rightarrow> if x = [] then d else x)"

definition status_or_500 :: "nat \<Rightarrow> nat" where
  "status_or_500 st = (if st = 0 then 500 else st)"

definition bad_request :: "string \<Rightarrow> response" where
  "bad_request m = \<lparr>status = 400, payload = Failure m\<rparr>"

definition undefined_read :: "string \<Rightarrow> js_error" where
  "undefined_read field =
     TypeError (''Cannot read properties of undefined (reading '' @ field @ '')'')"

subsection \<open>\<^verbatim>\<open>POST /api/generate\<close> (lines 208 to 342)\<close>

text \<open>
  The \<^verbatim>\<open>catch\<close> block: the files pushed to \<^verbatim>\<open>uploadedFiles\<close> so far are cleaned up,
  then an upstream error is passed through and any other becomes a 500.
\<close>

definition generate_catch :: "upload_file list \<Rightarrow> js_error \<Rightarrow> state \<Rightarrow> response \<times> state" where
  "generate_catch uploadedFiles error s =
     (let s' = cleanupFiles uploadedFiles s
      in (case error_response_data error of
            Some (st, d) \<Rightarrow>
              (\<lparr>status = status_or_500 st,
                payload = ApiFailure (or_else (err_message d) ''Kling AI API error'') (err_code d)\<rparr>, s')
          | None \<Rightarrow>
              (\<lparr>status = 500,
                payload = Failure (or_else (Some (error_message error)) ''Internal server error'')\<rparr>, s')))"

text \<open>
  The request to the external API, with headers made for this call (the arguments of
  \<^verbatim>\<open>axios.post\<close> are evaluated, then the request is sent), the cleanup and the answer.
  Reading \<^verbatim>\<open>task_id\<close> of an answer without \<^verbatim>\<open>data\<close> throws after the cleanup has
  run.
\<close>

definition generate_request ::
  "config \<Rightarrow> world \<Rightarrow> upload_file list \<Rightarrow> generation_payload \<Rightarrow> state \<Rightarrow> response \<times> state" where
  "generate_request cfg w uploadedFiles requestPayload s =
     (let (now, s1) = Date_now w s
      in (case getAuthHeaders cfg now of
            Inl e \<Rightarrow> generate_catch uploadedFiles e s1
          | Inr headers \<Rightarrow>
             (let s2 = emit (KlingPost (KLING_API_BASE cfg @ ''/v1/videos/motion-control'')
                               requestPayload headers) s1
              in (case kling_post w requestPayload of
                    Inl e \<Rightarrow> generate_catch uploadedFiles e s2
                  | Inr data \<Rightarrow>
                     (let s3 = cleanupFiles uploadedFiles s2
                      in (case data of
                            None \<Rightarrow> generate_catch uploadedFiles (undefined_read ''task_id'') s3
                          | Some created \<Rightarrow>
                              (\<lparr>status = 200, payload = Created created\<rparr>, s3)))))))"

text \<open>
  The part of the \<^verbatim>\<open>try\<close> block after validation: the two uploads, then the request
  with the two URLs they returned.
\<close>

definition generate_submit ::
  "config \<Rightarrow> world \<Rightarrow> upload_file \<Rightarrow> upload_file \<Rightarrow> req_body \<Rightarrow> state \<Rightarrow> response \<times> state" where
  "generate_submit cfg w imageFile videoFile b s =
     (let uploadedFiles = [imageFile, videoFile]
      in (case uploadToS3 cfg w (file_path imageFile) (originalname imageFile) (mimetype imageFile) s of
            (Inl e, s1) \<Rightarrow> generate_catch uploadedFiles e s1
          | (Inr imageUrl, s1) \<Rightarrow>
             (case uploadToS3 cfg w (file_path videoFile) (originalname videoFile) (mimetype videoFile) s1 of
                (Inl e, s2) \<Rightarrow> generate_catch uploadedFiles e s2
              | (Inr videoUrl, s2) \<Rightarrow>
                  generate_request cfg w uploadedFiles
                    \<lparr>prompt = (if truthy (body_prompt b) then body_prompt b else None),
                     image_url = imageUrl,
                     video_url = videoUrl,
                     character_orientation = or_else (body_character_orientation b) [],
                     mode = or_else (body_mode b) [],
                     keep_original_sound =
                       (case body_keep_original_sound b of None \<Rightarrow> ''yes'' | Some k \<Rightarrow> k)\<rparr>
                    s2)))"

text \<open>
  The handler. Each validation failure is a \<^verbatim>\<open>return res.status(400)\<close> from inside the
  \<^verbatim>\<open>try\<close> block: nothing is thrown, so the \<^verbatim>\<open>catch\<close> block does not run.
\<close>

definition generate_handler :: "config \<Rightarrow> world \<Rightarrow> request \<Rightarrow> state \<Rightarrow> response \<times> state" where
  "generate_handler cfg w req s =
     (case files req of
        None \<Rightarrow> (bad_request ''Both image and video files are required'', s)
      | Some fl \<Rightarrow>
         (case files_image fl of
            None \<Rightarrow> (bad_request ''Both image and video files are required'', s)
          | Some imageFile \<Rightarrow>
             (case files_video fl of
                None \<Rightarrow> (bad_request ''Both image and video files are required'', s)
              | Some videoFile \<Rightarrow>
                  if file_size imageFile > 10 * 1024 * 1024
                  then (bad_request ''Image file must be less than 10MB'', s)
                  else if file_size videoFile > 100 * 1024 * 1024
                  then (bad_request ''Video file must be less than 100MB'', s)
                  else if \<not> truthy (body_character_orientation (body req)) \<or> \<not> truthy (body_mode (body req))
                  then (bad_request ''character_orientation and mode are required'', s)
                  else generate_submit cfg w imageFile videoFile (body req) s)))"

subsection \<open>\<^verbatim>\<open>GET /api/task/:taskId\<close> (lines 345 to 383)\<close>

definition task_url :: "config \<Rightarrow> string \<Rightarrow> string" where
  "task_url cfg taskId = KLING_API_BASE cfg @ ''/v1/videos/motion-control/'' @ taskId"



subsection \<open>\<^verbatim>\<open>GET /api/download/:taskId\<close> (lines 392 to 509)\<close>

text \<open>\<^verbatim>\<open>taskData.task_result?.videos?.[0]?.url\<close>\<close>

definition result_video_url :: "task_data \<Rightarrow> string option" where
  "result_video_url taskData =
     (case td_task_result taskData of
        None \<Rightarrow> None
      | Some r \<Rightarrow>
         (case videos r of
            None \<Rightarrow> None
          | Some [] \<Rightarrow> None
          | Some (v # rest) \<Rightarrow> url v))"

text \<open>The loop \<^verbatim>\<open>for (const f of tempFiles) { try { await fs.unlink(f) } catch (e) {} }\<close>\<close>

fun unlink_all :: "path list \<Rightarrow> state \<Rightarrow> state" where
  "unlink_all [] s = s"
| "unlink_all (f # rest) s = unlink_all rest (snd (unlink f s))"

definition temp_name :: "config \<Rightarrow> string \<Rightarrow> string \<Rightarrow> nat \<Rightarrow> path" where
  "temp_name cfg kind taskId now =
     uploadsDir cfg @ ''/'' @ ''temp-'' @ kind @ ''-'' @ taskId @ ''-'' @ dec now @ ''.mp4''"

definition ffmpeg_args :: "config \<Rightarrow> path \<Rightarrow> path \<Rightarrow> string list" where
  "ffmpeg_args cfg tempInput tempOutput =
     [''-y'',
      ''-i'', tempInput,
      ''-i'', LOGO_PATH cfg,
      ''-filter_complex'',
      ''[1:v]scale=iw*min(160/iw'' @ [CHR 0x5C] @ '',80/ih):-1:flags=lanczos,format=rgba,''
        @ ''colorchannelmixer=aa=0.85[logo];[0:v][logo]overlay=W-w-20:20'',
      ''-codec:a'', ''copy'',
      ''-movflags'', ''+faststart'',
      tempOutput]"

text \<open>
  The \<^verbatim>\<open>catch\<close> block: the temp files registered so far are unlinked and, the headers
  not being sent yet at any point that throws, a 500 is sent.
\<close>

definition download_catch :: "path list \<Rightarrow> js_error \<Rightarrow> state \<Rightarrow> response \<times> state" where
  "download_catch tempFiles error s =
     (\<lparr>status = 500,
       payload = Failure (or_else (Some (error_message error)) ''Failed to process video download'')\<rparr>,
      unlink_all tempFiles s)"

text \<open>
  The read stream piped into the response. The \<^verbatim>\<open>end\<close> handler unlinks the temp files;
  the \<^verbatim>\<open>error\<close> handler logs and ends the response.
\<close>

definition stream_back ::
  "world \<Rightarrow> string \<Rightarrow> path list \<Rightarrow> path \<Rightarrow> nat \<Rightarrow> state \<Rightarrow> response \<times> state" where
  "stream_back w taskId tempFiles tempOutput sz s =
     (let res = \<lparr>status = 200,
                 payload = VideoStream (''eros-universe-'' @ take 8 taskId @ ''.mp4'') sz\<rparr>
      in case stream_outcome w tempOutput of
           StreamEnd \<Rightarrow> (res, unlink_all tempFiles s)
         | StreamError m \<Rightarrow> (res, s)
         | StreamStalled \<Rightarrow> (res, s))"

text \<open>
  The steps after the three checks: the two temp names (each reads the clock), the
  download, the media tool, \<^verbatim>\<open>fs.stat\<close> and the stream.
\<close>

definition watermark ::
  "config \<Rightarrow> world \<Rightarrow> string \<Rightarrow> string \<Rightarrow> state \<Rightarrow> response \<times> state" where
  "watermark cfg w taskId videoUrl s =
     (let (t1, s1) = Date_now w s;
          tempInput = temp_name cfg ''input'' taskId t1;
          (t2, s2) = Date_now w s1;
          tempOutput = temp_name cfg ''output'' taskId t2;
          tempFiles = [tempInput, tempOutput];
          s3 = emit (VideoGet videoUrl) s2
      in (case video_get w videoUrl of
            Inl e \<Rightarrow> download_catch tempFiles e s3
          | Inr data \<Rightarrow>
             (let s4 = writeFile tempInput data s3;
                  s5 = emit (Ffmpeg (ffmpeg_args cfg tempInput tempOutput)) s4
              in (case ffmpeg_run w data of
                    Inl m \<Rightarrow> download_catch tempFiles (Error (''ffmpeg failed: '' @ m)) s5
                  | Inr out \<Rightarrow>
                     (let s6 = writeFile tempOutput out s5
                      in (case fs s6 tempOutput of
                            None \<Rightarrow> download_catch tempFiles (Error (enoent tempOutput)) s6
                          | Some content \<Rightarrow>
                              stream_back w taskId tempFiles tempOutput (length content) s6))))))"

definition download_handler :: "config \<Rightarrow> world \<Rightarrow> string \<Rightarrow> state \<Rightarrow> response \<times> state" where
  "download_handler cfg w taskId s =
     (let (now, s1) = Date_now w s
      in (case getAuthHeaders cfg now of
            Inl e \<Rightarrow> download_catch [] e s1
          | Inr headers \<Rightarrow>
             (let s2 = emit (KlingGet (task_url cfg taskId) headers) s1
              in (case kling_get w (task_url cfg taskId) of
                    Inl e \<Rightarrow> download_catch [] e s2
                  | Inr None \<Rightarrow> download_catch [] (undefined_read ''task_status'') s2
                  | Inr (Some taskData) \<Rightarrow>
                    if td_task_status taskData \<noteq> Some ''succeed''
                    then (bad_request ''Video is not ready yet'', s2)
                    else if \<not> truthy (result_video_url taskData)
                    then (\<lparr>status = 404, payload = Failure ''No video URL found for this task''\<rparr>, s2)
                    else if fs s2 (LOGO_PATH cfg) = None
                    then (\<lparr>status = 500, payload = Failure ''Logo file not found on server''\<rparr>, s2)
                    else watermark cfg w taskId (or_else (result_video_url taskData) []) s2))))"

subsection \<open>Reading the log of calls\<close>

text \<open>The calls a handler added to the log between two states.\<close>

definition new_events :: "state \<Rightarrow> state \<Rightarrow> event list" where
  "new_events s s' = drop (length (trace s)) (trace s')"

text \<open>The headers a request to the external API carried.\<close>

fun event_headers :: "event \<Rightarrow> auth_headers option" where
  "event_headers (KlingPost u p h) = Some h"
| "event_headers (KlingGet u h) = Some h"
| "event_headers e = None"

fun is_download :: "event \<Rightarrow> bool" where
  "is_download (VideoGet u) = True"
| "is_download e = False"

fun is_tool_run :: "event \<Rightarrow> bool" where
  "is_tool_run (Ffmpeg args) = True"
| "is_tool_run e = False"

text \<open>
  From \<open>s\<close> to \<open>s'\<close> the log only grew, the clock was only read, and every request to
  the external API added in between carries headers made from a clock reading taken in
  between.
\<close>

definition advances :: "config \<Rightarrow> world \<Rightarrow> state \<Rightarrow> state \<Rightarrow> bool" where
  "advances cfg w s s' \<longleftrightarrow>
     (\<exists>evs. trace s' = trace s @ evs \<and> ticks s \<le> ticks s' \<and>
        (\<forall>e \<in> set evs. \<forall>h. event_headers e = Some h \<longrightarrow>
           (\<exists>k. ticks s \<le> k \<and> k < ticks s' \<and> getAuthHeaders cfg (clock w k) = Inr h)))"

subsection \<open>The validation violations of a submission\<close>

text \<open>
  The four ways a submission can be invalid, as the specification lists them: a file is
  missing, the image is larger than 10 MiB, the video is larger than 100 MiB, a required
  field is empty.
\<close>

definition missing_file :: "request \<Rightarrow> bool" where
  "missing_file req =
     (case files req of
        None \<Rightarrow> True
      | Some fl \<Rightarrow> files_image fl = None \<or> files_video fl = None)"

definition image_too_large :: "request \<Rightarrow> bool" where
  "image_too_large req =
     (case files req of
        None \<Rightarrow> False
      | Some fl \<Rightarrow>
         (case files_image fl of None \<Rightarrow> False | Some f \<Rightarrow> file_size f > 10 * 1024 * 1024))"

definition video_too_large :: "request \<Rightarrow> bool" where
  "video_too_large req =
     (case files req of
        None \<Rightarrow> False
      | Some fl \<Rightarrow>
         (case files_video fl of None \<Rightarrow> False | Some f \<Rightarrow> file_size f > 100 * 1024 * 1024))"

definition empty_field :: "request \<Rightarrow> bool" where
  "empty_field req =
     (\<not> truthy (body_character_orientation (body req)) \<or> \<not> truthy (body_mode (body req)))"

definition violation :: "request \<Rightarrow> bool" where
  "violation req =
     (missing_file req \<or> image_too_large req \<or> video_too_large req \<or> empty_field req)"

text \<open>
  What \<^verbatim>\<open>path.extname\<close> returns: the empty string, or a suffix that starts at a dot.
\<close>

definition ext_ok :: "string \<Rightarrow> bool" where
  "ext_ok ext = (case ext of [] \<Rightarrow> True | c # cs \<Rightarrow> c = CHR ''.'')"

subsection \<open>A concrete deployment\<close>

text \<open>
  A configuration with both credentials and the bucket switched on, a world in which every
  remote side answers well, a submission of two small files, and a disk that holds the
  two stored uploads and the logo.
\<close>

definition sample_cfg :: config where
  "sample_cfg =
     \<lparr>KLING_API_BASE_URL = None, KLING_ACCESS_KEY = Some ''ak-1'', KLING_SECRET_KEY = Some ''sk-1'',
      S3_ENABLED_env = Some ''true'', S3_ENDPOINT = Some ''https://s3.example'',
      S3_BUCKET = Some ''bkt'', dirname = ''/app''\<rparr>"

definition sample_task :: task_data where
  "sample_task =
     \<lparr>td_task_status = Some ''succeed'',
      td_task_result = Some \<lparr>videos = Some [\<lparr>url = Some ''https://cdn.example/out.mp4''\<rparr>]\<rparr>\<rparr>"

definition sample_world :: world where
  "sample_world =
     \<lparr>clock = (\<lambda>k. 1700000000000 + k),
      s3_send = (\<lambda>p. None),
      s3_presign = (\<lambda>k. Inr (''https://s3.example/bkt/'' @ k)),
      kling_post = (\<lambda>p. Inr (Some \<lparr>task_id = Some ''task-42'', task_status = Some ''submitted'',
                                    created_at = Some 1700000000, external_task_id = None\<rparr>)),
      kling_get = (\<lambda>u. Inr (Some sample_task)),
      video_get = (\<lambda>u. Inr ''VIDEO''),
      ffmpeg_run = (\<lambda>d. Inr (d @ ''+LOGO'')),
      stream_outcome = (\<lambda>p. StreamEnd)\<rparr>"

definition sample_image :: upload_file where
  "sample_image = \<lparr>originalname = ''face.png'', file_path = ''uploads/17-1.png'',
                    file_size = 2048, mimetype = ''image/png''\<rparr>"

definition sample_video :: upload_file where
  "sample_video = \<lparr>originalname = ''dance.mp4'', file_path = ''uploads/17-2.mp4'',
                    file_size = 4096, mimetype = ''video/mp4''\<rparr>"

definition sample_request :: request where
  "sample_request =
     \<lparr>files = Some \<lparr>files_image = Some sample_image, files_video = Some sample_video\<rparr>,
      body = \<lparr>body_prompt = None, body_character_orientation = Some ''image'',
              body_mode = Some ''std'', body_keep_original_sound = None\<rparr>\<rparr>"

definition sample_state :: state where
  "sample_state =
     \<lparr>fs = [''uploads/17-1.png'' \<mapsto> ''PNG'', ''uploads/17-2.mp4'' \<mapsto> ''MP4'',
             ''/app/assets/logo.png'' \<mapsto> ''LOGO''],
      trace = [], ticks = 0\<rparr>"

text \<open>The token and the headers that the sample configuration yields at the first clock reading.\<close>

definition sample_token :: jwt where
  "sample_token =
     Jwt \<lparr>jwt_alg = ''HS256'', jwt_typ = ''JWT''\<rparr>
         \<lparr>iss = ''ak-1'', exp = 1700001800, nbf = 1699999995\<rparr> ''sk-1''"

definition sample_headers :: auth_headers where
  "sample_headers = \<lparr>content_type = ''application/json'', authorization = sample_token\<rparr>"

text \<open>
  Variations of it: the task is still being processed; the task succeeded but its payload
  names no video; the logo is not on the disk; the read stream of the watermarked file
  emits \<^verbatim>\<open>error\<close>; the image of the submission has one byte more than 10 MiB; the
  issuer is set to the empty string; the clock stays within one millisecond while two
  requests upload an image that their users both called \<^verbatim>\<open>face.png\<close>.
\<close>

definition processing_world :: world where
  "processing_world =
     sample_world\<lparr>kling_get := (\<lambda>u. Inr (Some (sample_task\<lparr>td_task_status := Some ''processing''\<rparr>)))\<rparr>"

definition no_result_world :: world where
  "no_result_world =
     sample_world\<lparr>kling_get := (\<lambda>u. Inr (Some (sample_task\<lparr>td_task_result := None\<rparr>)))\<rparr>"

definition no_logo_state :: state where
  "no_logo_state = sample_state\<lparr>fs := (fs sample_state)(''/app/assets/logo.png'' := None)\<rparr>"

definition broken_stream_world :: world where
  "broken_stream_world = sample_world\<lparr>stream_outcome := (\<lambda>p. StreamError ''EIO'')\<rparr>"

definition oversized_request :: request where
  "oversized_request =
     sample_request\<lparr>files := Some \<lparr>files_image = Some (sample_image\<lparr>file_size := 10485761\<rparr>),
                                    files_video = Some sample_video\<rparr>\<rparr>"

definition empty_issuer_cfg :: config where
  "empty_issuer_cfg = sample_cfg\<lparr>KLING_ACCESS_KEY := Some []\<rparr>"

definition same_ms_world :: world where
  "same_ms_world = sample_world\<lparr>clock := (\<lambda>k. 1700000000000)\<rparr>"

definition two_requests_state :: state where
  "two_requests_state =
     \<lparr>fs = [''uploads/17-1.png'' \<mapsto> ''PNG-A'', ''uploads/17-3.png'' \<mapsto> ''PNG-B''],
      trace = [], ticks = 0\<rparr>"

section \<open>Properties\<close>

lemmas sample_defs = sample_cfg_def sample_task_def sample_world_def sample_image_def
  sample_video_def sample_request_def sample_state_def sample_token_def sample_headers_def
  processing_world_def no_result_world_def no_logo_state_def broken_stream_world_def
  oversized_request_def empty_issuer_cfg_def same_ms_world_def two_requests_state_def

subsection \<open>Decimal strings\<close>

lemma dec_nonempty: "dec n \<noteq> []"
  by (subst dec.simps) simp

lemma digit_inj: "a < 10 \<Longrightarrow> b < 10 \<Longrightarrow> digit a = digit b \<Longrightarrow> a = b"
proof -
  assume a: "a < 10" and b: "b < 10" and e: "digit a = digit b"
  have d: "distinct ''0123456789''" by simp
  from a b have "a < length ''0123456789''" "b < length ''0123456789''" by simp_all
  with d e show ?thesis unfolding digit_def by (simp only: nth_eq_iff_index_eq)
qed

lemma digit_in: "d < 10 \<Longrightarrow> digit d \<in> set ''0123456789''"
  unfolding digit_def by (rule nth_mem) simp

lemma dec_digits: "set (dec n) \<subseteq> set ''0123456789''"
proof (induction n rule: dec.induct)
  case (1 n)
  show ?case
  proof (cases "n < 10")
    case True
    then show ?thesis using digit_in [of n] by (subst dec.simps) simp
  next
    case False
    have "n mod 10 < 10" by simp
    from digit_in [OF this] 1 [OF False] False show ?thesis by (subst dec.simps) simp
  qed
qed

lemma dec_inj: "dec n = dec m \<Longrightarrow> n = m"
proof (induction n arbitrary: m rule: dec.induct)
  case (1 n)
  have ln: "last (dec n) = digit (n mod 10)" by (subst dec.simps) simp
  have lm: "last (dec m) = digit (m mod 10)" by (subst dec.simps) simp
  from ln lm "1.prems" have "digit (n mod 10) = digit (m mod 10)" by simp
  then have md: "n mod 10 = m mod 10" by (intro digit_inj) simp_all
  have bn: "butlast (dec n) = (if n < 10 then [] else dec (n div 10))" by (subst dec.simps) simp
  have bm: "butlast (dec m) = (if m < 10 then [] else dec (m div 10))" by (subst dec.simps) simp
  from bn bm "1.prems"
  have b: "(if n < 10 then [] else dec (n div 10)) = (if m < 10 then [] else dec (m div 10))" by simp
  show ?case
  proof (cases "n < 10")
    case True
    with b dec_nonempty [of "m div 10"] have "m < 10" by (cases "m < 10") simp_all
    with True md show ?thesis by simp
  next
    case False
    with b dec_nonempty [of "n div 10"] have m: "\<not> m < 10" by (cases "m < 10") simp_all
    with b False have "dec (n div 10) = dec (m div 10)" by simp
    from "1.IH" [OF False this] have "n div 10 = m div 10" .
    with md show ?thesis by (metis div_mult_mod_eq)
  qed
qed

lemma dash_not_digit: "CHR ''-'' \<notin> set (dec n)"
  using dec_digits [of n] by auto

lemma split_at_first:
  assumes "x \<notin> set xs" and "x \<notin> set xs'" and eq: "xs @ x # ys = xs' @ x # ys'"
  shows "xs = xs' \<and> ys = ys'"
proof -
  have "takeWhile (\<lambda>c. c \<noteq> x) (xs @ x # ys) = xs"
    using assms(1) by (auto simp: takeWhile_tail)
  moreover have "takeWhile (\<lambda>c. c \<noteq> x) (xs' @ x # ys') = xs'"
    using assms(2) by (auto simp: takeWhile_tail)
  ultimately have "xs = xs'" using eq by simp
  with eq show ?thesis by simp
qed

lemma dec_dash_split:
  "dec a @ CHR ''-'' # x = dec b @ CHR ''-'' # y \<longleftrightarrow> a = b \<and> x = y"
proof
  assume "dec a @ CHR ''-'' # x = dec b @ CHR ''-'' # y"
  from split_at_first [OF dash_not_digit dash_not_digit this]
  show "a = b \<and> x = y" using dec_inj by blast
qed simp

lemma s3_key_inj: "s3_key t1 n1 = s3_key t2 n2 \<longleftrightarrow> t1 = t2 \<and> n1 = n2"
  unfolding s3_key_def using dec_dash_split [of t1 n1 t2 n2] by simp

lemma dec_ext_split:
  assumes "ext_ok e1" and "ext_ok e2" and eq: "dec a @ e1 = dec b @ e2"
  shows "a = b \<and> e1 = e2"
proof -
  have tw: "\<And>n e. ext_ok e \<Longrightarrow> takeWhile (\<lambda>c. c \<in> set ''0123456789'') (dec n @ e) = dec n"
  proof -
    fix n e assume "ext_ok e"
    then have "takeWhile (\<lambda>c. c \<in> set ''0123456789'') e = []"
      by (cases e) (auto simp: ext_ok_def)
    moreover have "\<forall>c \<in> set (dec n). c \<in> set ''0123456789''" using dec_digits [of n] by blast
    ultimately show "takeWhile (\<lambda>c. c \<in> set ''0123456789'') (dec n @ e) = dec n"
      by (simp add: takeWhile_append2)
  qed
  from tw [OF assms(1), of a] tw [OF assms(2), of b] eq have "dec a = dec b" by simp
  with eq dec_inj show ?thesis by auto
qed

subsection \<open>The log and the clock along a request\<close>

lemma unlink_trace [simp]: "trace (snd (unlink p s)) = trace s"
  by (simp add: unlink_def split: option.splits)

lemma unlink_ticks [simp]: "ticks (snd (unlink p s)) = ticks s"
  by (simp add: unlink_def split: option.splits)

lemma cleanupFiles_trace [simp]: "trace (cleanupFiles fls s) = trace s"
  by (induction fls arbitrary: s) simp_all

lemma cleanupFiles_ticks [simp]: "ticks (cleanupFiles fls s) = ticks s"
  by (induction fls arbitrary: s) simp_all

lemma unlink_all_trace [simp]: "trace (unlink_all ps s) = trace s"
  by (induction ps arbitrary: s) simp_all

lemma unlink_all_ticks [simp]: "ticks (unlink_all ps s) = ticks s"
  by (induction ps arbitrary: s) simp_all



lemma advances_plain:
  "event_headers e = None \<Longrightarrow> trace s' = trace s @ [e] \<Longrightarrow> ticks s \<le> ticks s' \<Longrightarrow> advances cfg w s s'"
  by (simp add: advances_def)






lemma generate_catch_trace [simp]: "trace (snd (generate_catch fls e s)) = trace s"
  by (simp add: generate_catch_def Let_def split: option.splits prod.splits)

lemma generate_catch_ticks [simp]: "ticks (snd (generate_catch fls e s)) = ticks s"
  by (simp add: generate_catch_def Let_def split: option.splits prod.splits)





lemma download_catch_trace [simp]: "trace (snd (download_catch ps e s)) = trace s"
  by (simp add: download_catch_def)

lemma download_catch_ticks [simp]: "ticks (snd (download_catch ps e s)) = ticks s"
  by (simp add: download_catch_def)

lemma stream_back_trace [simp]: "trace (snd (stream_back w taskId ps out n s)) = trace s"
  by (simp add: stream_back_def Let_def split: stream_event.splits)

lemma stream_back_ticks [simp]: "ticks (snd (stream_back w taskId ps out n s)) = ticks s"
  by (simp add: stream_back_def Let_def split: stream_event.splits)







subsection \<open>Validation\<close>


lemma generate_valid:
  "\<not> violation req \<Longrightarrow>
     \<exists>fl i v. files req = Some fl \<and> files_image fl = Some i \<and> files_video fl = Some v \<and>
       generate_handler cfg w req s = generate_submit cfg w i v (body req) s"
  unfolding violation_def missing_file_def image_too_large_def video_too_large_def empty_field_def
    generate_handler_def
  by (auto split: option.splits)

subsection \<open>The download checks\<close>

lemma download_catch_status [simp]: "status (fst (download_catch ps e s)) = 500"
  by (simp add: download_catch_def)

lemma download_no_logo:
  "fs s (LOGO_PATH cfg) = None \<Longrightarrow>
     400 \<le> status (fst (download_handler cfg w taskId s)) \<and>
     (\<forall>e \<in> set (new_events s (snd (download_handler cfg w taskId s))). \<not> is_download e \<and> \<not> is_tool_run e)"
  by (simp add: download_handler_def Date_now_def emit_def Let_def new_events_def bad_request_def
        split: sum.splits option.splits)

lemma dec_small: "dec 1700000000001 = ''1700000000001''" "dec 1700000000002 = ''1700000000002''"
  by (simp_all add: dec.simps digit_def)

subsection \<open>Where the cleanup does run\<close>

lemma unlink_removes: "fs (snd (unlink p s)) p = None"
  by (simp add: unlink_def split: option.splits)

lemma unlink_keeps_absent: "fs s q = None \<Longrightarrow> fs (snd (unlink p s)) q = None"
  by (simp add: unlink_def split: option.splits)

lemma cleanupFiles_keeps_absent: "fs s q = None \<Longrightarrow> fs (cleanupFiles fls s) q = None"
  by (induction fls arbitrary: s) (simp_all add: unlink_keeps_absent)

lemma cleanupFiles_removes: "f \<in> set fls \<Longrightarrow> fs (cleanupFiles fls s) (file_path f) = None"
proof (induction fls arbitrary: s)
  case Nil
  then show ?case by simp
next
  case (Cons g fls)
  show ?case
  proof (cases "f = g")
    case True
    then show ?thesis by (simp add: cleanupFiles_keeps_absent unlink_removes)
  next
    case False
    with Cons show ?thesis by simp
  qed
qed

lemma unlink_all_keeps_absent: "fs s q = None \<Longrightarrow> fs (unlink_all ps s) q = None"
  by (induction ps arbitrary: s) (simp_all add: unlink_keeps_absent)

lemma unlink_all_removes: "p \<in> set ps \<Longrightarrow> fs (unlink_all ps s) p = None"
proof (induction ps arbitrary: s)
  case Nil
  then show ?case by simp
next
  case (Cons q ps)
  show ?case
  proof (cases "p = q")
    case True
    then show ?thesis by (simp add: unlink_all_keeps_absent unlink_removes)
  next
    case False
    with Cons show ?thesis by simp
  qed
qed

lemma generate_catch_removes:
  "f \<in> set fls \<Longrightarrow> fs (snd (generate_catch fls e s)) (file_path f) = None"
  by (simp add: generate_catch_def Let_def cleanupFiles_removes split: option.splits prod.splits)

lemma generate_request_removes:
  "f \<in> set fls \<Longrightarrow> fs (snd (generate_request cfg w fls p s)) (file_path f) = None"
  by (simp add: generate_request_def Date_now_def Let_def generate_catch_removes cleanupFiles_removes
        split: sum.splits option.splits)

text \<open>
  Once validation has passed, every way out of the submission (a failed upload, a failed
  request, a malformed answer, success) leaves neither uploaded file on the disk.
\<close>

lemma generate_submit_removes:
  "fs (snd (generate_submit cfg w i v b s)) (file_path i) = None \<and>
   fs (snd (generate_submit cfg w i v b s)) (file_path v) = None"
  by (simp add: generate_submit_def Let_def generate_catch_removes generate_request_removes
        split: sum.splits prod.splits)

text \<open>
  In the download, every failure after the temp names are made and the \<^verbatim>\<open>end\<close> of the
  stream leave neither temp file on the disk.
\<close>

lemma watermark_removes:
  "stream_outcome w (temp_name cfg ''output'' taskId (clock w (Suc (ticks s)))) = StreamEnd \<Longrightarrow>
     fs (snd (watermark cfg w taskId u s)) (temp_name cfg ''input'' taskId (clock w (ticks s))) = None \<and>
     fs (snd (watermark cfg w taskId u s)) (temp_name cfg ''output'' taskId (clock w (Suc (ticks s)))) = None"
  by (simp add: watermark_def stream_back_def download_catch_def Date_now_def Let_def
        unlink_removes unlink_keeps_absent split: sum.splits option.splits)

section \<open>The claims\<close>



text \<open>
  C10. When the value of \<^verbatim>\<open>S3_ENABLED\<close> in the environment is anything other than the
  string \<^verbatim>\<open>true\<close>, every submission that passes validation is answered with status
  500 and the message \<^verbatim>\<open>S3 is not configured\<close>, and the log of calls is unchanged: no
  generation request reaches the external API.
\<close>

theorem s3_disabled_fails_before_submission:
  "S3_ENABLED_env cfg \<noteq> Some ''true'' \<Longrightarrow> \<not> violation req \<Longrightarrow>
     fst (generate_handler cfg w req s) = \<lparr>status = 500, payload = Failure ''S3 is not configured''\<rparr> \<and>
     trace (snd (generate_handler cfg w req s)) = trace s"
proof -
  assume off: "S3_ENABLED_env cfg \<noteq> Some ''true''" and ok: "\<not> violation req"
  from generate_valid [OF ok, of cfg w s] obtain fl i v where
    h: "generate_handler cfg w req s = generate_submit cfg w i v (body req) s" by blast
  from off have up: "\<And>p n c t. uploadToS3 cfg w p n c t = (Inl (Error ''S3 is not configured''), t)"
    by (simp add: uploadToS3_def S3_ENABLED_def)
  show ?thesis
    unfolding h generate_submit_def
    by (simp add: up generate_catch_def or_else_def)
qed

theorem s3_disabled_fails_before_submission_witness:
  "S3_ENABLED_env (sample_cfg\<lparr>S3_ENABLED_env := Some ''TRUE''\<rparr>) \<noteq> Some ''true'' \<and>
   \<not> violation sample_request \<and>
   fst (generate_handler (sample_cfg\<lparr>S3_ENABLED_env := Some ''TRUE''\<rparr>) sample_world
          sample_request sample_state) =
     \<lparr>status = 500, payload = Failure ''S3 is not configured''\<rparr> \<and>
   trace (snd (generate_handler (sample_cfg\<lparr>S3_ENABLED_env := Some ''TRUE''\<rparr>) sample_world
            sample_request sample_state)) = []"
proof -
  have off: "S3_ENABLED_env (sample_cfg\<lparr>S3_ENABLED_env := Some ''TRUE''\<rparr>) \<noteq> Some ''true''"
    by simp
  have ok: "\<not> violation sample_request"
    by (simp add: violation_def missing_file_def image_too_large_def video_too_large_def
          empty_field_def truthy_def sample_request_def sample_image_def sample_video_def)
  have t: "trace sample_state = []" by (simp add: sample_state_def)
  from s3_disabled_fails_before_submission [OF off ok, of sample_world sample_state] off ok t
  show ?thesis by simp
qed

text \<open>
  C7. A request without an \<^verbatim>\<open>Origin\<close> header is let through. A request with a
  non-empty \<^verbatim>\<open>Origin\<close> header is let through exactly when the header is, character
  for character, one of the entries of \<^verbatim>\<open>allowedOrigins\<close>, and is refused with the
  error \<^verbatim>\<open>Not allowed by CORS\<close> otherwise.
\<close>

theorem cors_allowlist:
  "cors_origin None = Inr True \<and>
   (origin \<noteq> [] \<longrightarrow>
      (cors_origin (Some origin) = Inr True \<longleftrightarrow> origin \<in> set allowedOrigins) \<and>
      (origin \<notin> set allowedOrigins \<longrightarrow> cors_origin (Some origin) = Inl (Error ''Not allowed by CORS'')))"
  by (simp add: cors_origin_def)

theorem cors_allowlist_witness:
  "''http://localhost:5500'' \<noteq> [] \<and> ''http://localhost:5500'' \<in> set allowedOrigins \<and>
   cors_origin (Some ''http://localhost:5500'') = Inr True \<and>
   ''http://evil.example'' \<noteq> [] \<and> ''http://evil.example'' \<notin> set allowedOrigins \<and>
   cors_origin (Some ''http://evil.example'') = Inl (Error ''Not allowed by CORS'')"
proof -
  have a: "''http://localhost:5500'' \<noteq> [] \<and> ''http://localhost:5500'' \<in> set allowedOrigins"
    by (simp add: allowedOrigins_def)
  have b: "''http://evil.example'' \<noteq> [] \<and> ''http://evil.example'' \<notin> set allowedOrigins"
    by (simp add: allowedOrigins_def)
  from cors_allowlist [of "''http://localhost:5500''"] cors_allowlist [of "''http://evil.example''"] a b
  show ?thesis by blast
qed






text \<open>
  C6. The download handler makes its three checks, in this order, right after the status
  query and before any expensive work. When the query answers with a status other than
  \<^verbatim>\<open>succeed\<close> the response is 400; when the task succeeded but its payload has no
  result video URL the response is 404; when it has one but the logo is not on the disk
  the response is the 500 \<^verbatim>\<open>Logo file not found on server\<close>. In each of the three
  cases the status query is the only call the request made (no video download, no run of
  the media tool) and the disk is untouched. Whatever the external API answers, a request
  that finds no logo ends in an error status without a download or a tool run.
\<close>

theorem download_preconditions:
  "(getAuthHeaders cfg (clock w (ticks s)) = Inr h \<longrightarrow>
    kling_get w (task_url cfg taskId) = Inr (Some taskData) \<longrightarrow>
      (td_task_status taskData \<noteq> Some ''succeed'' \<longrightarrow>
         status (fst (download_handler cfg w taskId s)) = 400 \<and>
         new_events s (snd (download_handler cfg w taskId s)) = [KlingGet (task_url cfg taskId) h] \<and>
         fs (snd (download_handler cfg w taskId s)) = fs s) \<and>
      (td_task_status taskData = Some ''succeed'' \<longrightarrow> \<not> truthy (result_video_url taskData) \<longrightarrow>
         status (fst (download_handler cfg w taskId s)) = 404 \<and>
         new_events s (snd (download_handler cfg w taskId s)) = [KlingGet (task_url cfg taskId) h] \<and>
         fs (snd (download_handler cfg w taskId s)) = fs s) \<and>
      (td_task_status taskData = Some ''succeed'' \<longrightarrow> truthy (result_video_url taskData) \<longrightarrow>
       fs s (LOGO_PATH cfg) = None \<longrightarrow>
         fst (download_handler cfg w taskId s) =
           \<lparr>status = 500, payload = Failure ''Logo file not found on server''\<rparr> \<and>
         new_events s (snd (download_handler cfg w taskId s)) = [KlingGet (task_url cfg taskId) h] \<and>
         fs (snd (download_handler cfg w taskId s)) = fs s)) \<and>
   (fs s (LOGO_PATH cfg) = None \<longrightarrow>
      400 \<le> status (fst (download_handler cfg w taskId s)) \<and>
      (\<forall>e \<in> set (new_events s (snd (download_handler cfg w taskId s))).
         \<not> is_download e \<and> \<not> is_tool_run e))"
proof (intro conjI impI)
  assume "fs s (LOGO_PATH cfg) = None"
  from download_no_logo [OF this]
  show "400 \<le> status (fst (download_handler cfg w taskId s))"
    and "\<forall>e \<in> set (new_events s (snd (download_handler cfg w taskId s))). \<not> is_download e \<and> \<not> is_tool_run e"
    by simp_all
qed (simp_all add: download_handler_def Date_now_def emit_def Let_def new_events_def bad_request_def)

theorem download_preconditions_witness:
  "status (fst (download_handler sample_cfg processing_world ''task-42'' sample_state)) = 400 \<and>
   new_events sample_state (snd (download_handler sample_cfg processing_world ''task-42'' sample_state)) =
     [KlingGet (task_url sample_cfg ''task-42'') sample_headers] \<and>
   status (fst (download_handler sample_cfg no_result_world ''task-42'' sample_state)) = 404 \<and>
   new_events sample_state (snd (download_handler sample_cfg no_result_world ''task-42'' sample_state)) =
     [KlingGet (task_url sample_cfg ''task-42'') sample_headers] \<and>
   fst (download_handler sample_cfg sample_world ''task-42'' no_logo_state) =
     \<lparr>status = 500, payload = Failure ''Logo file not found on server''\<rparr> \<and>
   new_events no_logo_state (snd (download_handler sample_cfg sample_world ''task-42'' no_logo_state)) =
     [KlingGet (task_url sample_cfg ''task-42'') sample_headers] \<and>
   filter (\<lambda>e. is_download e \<or> is_tool_run e)
     (new_events no_logo_state
        (snd (download_handler sample_cfg sample_world ''task-42'' no_logo_state))) = []"
proof -
  have g: "getAuthHeaders sample_cfg 1700000000000 = Inr sample_headers"
    by (simp add: getAuthHeaders_def generateJwtToken_def jwt_sign_def trim_def is_space_def
          currentTime_def sample_cfg_def sample_token_def sample_headers_def)
  have a1: "getAuthHeaders sample_cfg (clock processing_world (ticks sample_state)) = Inr sample_headers"
    and a2: "getAuthHeaders sample_cfg (clock no_result_world (ticks sample_state)) = Inr sample_headers"
    and a3: "getAuthHeaders sample_cfg (clock sample_world (ticks no_logo_state)) = Inr sample_headers"
    using g by (simp_all add: processing_world_def no_result_world_def no_logo_state_def
          sample_world_def sample_state_def)
  have q1: "kling_get processing_world (task_url sample_cfg ''task-42'') =
              Inr (Some (sample_task\<lparr>td_task_status := Some ''processing''\<rparr>))"
    and q2: "kling_get no_result_world (task_url sample_cfg ''task-42'') =
              Inr (Some (sample_task\<lparr>td_task_result := None\<rparr>))"
    and q3: "kling_get sample_world (task_url sample_cfg ''task-42'') = Inr (Some sample_task)"
    by (simp_all add: processing_world_def no_result_world_def sample_world_def)
  have c1: "td_task_status (sample_task\<lparr>td_task_status := Some ''processing''\<rparr>) \<noteq> Some ''succeed''"
    by simp
  have c2: "td_task_status (sample_task\<lparr>td_task_result := None\<rparr>) = Some ''succeed''"
    "\<not> truthy (result_video_url (sample_task\<lparr>td_task_result := None\<rparr>))"
    by (simp_all add: sample_task_def truthy_def result_video_url_def)
  have c3: "td_task_status sample_task = Some ''succeed''" "truthy (result_video_url sample_task)"
    "fs no_logo_state (LOGO_PATH sample_cfg) = None"
    by (simp_all add: sample_task_def truthy_def result_video_url_def no_logo_state_def
          LOGO_PATH_def sample_cfg_def)
  from download_preconditions [of sample_cfg processing_world sample_state sample_headers "''task-42''"
         "sample_task\<lparr>td_task_status := Some ''processing''\<rparr>"] a1 q1 c1
  have r1: "status (fst (download_handler sample_cfg processing_world ''task-42'' sample_state)) = 400 \<and>
    new_events sample_state (snd (download_handler sample_cfg processing_world ''task-42'' sample_state)) =
      [KlingGet (task_url sample_cfg ''task-42'') sample_headers]"
    by blast
  from download_preconditions [of sample_cfg no_result_world sample_state sample_headers "''task-42''"
         "sample_task\<lparr>td_task_result := None\<rparr>"] a2 q2 c2
  have r2: "status (fst (download_handler sample_cfg no_result_world ''task-42'' sample_state)) = 404 \<and>
    new_events sample_state (snd (download_handler sample_cfg no_result_world ''task-42'' sample_state)) =
      [KlingGet (task_url sample_cfg ''task-42'') sample_headers]"
    by blast
  from download_preconditions [of sample_cfg sample_world no_logo_state sample_headers "''task-42''"
         sample_task] a3 q3 c3
  have r3: "fst (download_handler sample_cfg sample_world ''task-42'' no_logo_state) =
      \<lparr>status = 500, payload = Failure ''Logo file not found on server''\<rparr> \<and>
    new_events no_logo_state (snd (download_handler sample_cfg sample_world ''task-42'' no_logo_state)) =
      [KlingGet (task_url sample_cfg ''task-42'') sample_headers] \<and>
    (\<forall>e \<in> set (new_events no_logo_state
                  (snd (download_handler sample_cfg sample_world ''task-42'' no_logo_state))).
      \<not> is_download e \<and> \<not> is_tool_run e)"
    by blast
  from r3 have "filter (\<lambda>e. is_download e \<or> is_tool_run e)
     (new_events no_logo_state
        (snd (download_handler sample_cfg sample_world ''task-42'' no_logo_state))) = []"
    by (simp add: filter_empty_conv)
  with r1 r2 r3 show ?thesis by blast
qed

text \<open>
  C8, as the claim states it, fails: the remote key is made of the clock reading in
  milliseconds and the display name and of nothing else. Two requests that upload, within
  one millisecond, two different images that their users both named \<^verbatim>\<open>face.png\<close> write
  them to the bucket under one and the same key.
\<close>

theorem same_millisecond_same_key:
  "trace (snd (uploadToS3 sample_cfg same_ms_world ''uploads/17-3.png'' ''face.png'' ''image/png''
           (snd (uploadToS3 sample_cfg same_ms_world ''uploads/17-1.png'' ''face.png'' ''image/png''
                  two_requests_state)))) =
     [S3Put \<lparr>Bucket = Some ''bkt'', Key = ''kling-uploads/1700000000000-face.png'',
             Body = ''PNG-A'', ContentType = ''image/png''\<rparr>,
      S3Put \<lparr>Bucket = Some ''bkt'', Key = ''kling-uploads/1700000000000-face.png'',
             Body = ''PNG-B'', ContentType = ''image/png''\<rparr>]"
  by (simp add: uploadToS3_def S3_ENABLED_def s3Client_def Date_now_def emit_def s3_key_def
        sample_cfg_def same_ms_world_def sample_world_def two_requests_state_def Let_def
        dec.simps digit_def)

text \<open>
  C8, amended. The names are as distinct as their inputs and no more. Two uploads get the
  same remote key exactly when they read the same millisecond and have the same display
  name. Two stored uploads get the same local name exactly when they read the same
  millisecond, drew the same random number and have the same extension (an extension
  being empty or starting with a dot). So two requests whose clock readings differ never
  share a key or a stored name, and two requests within one millisecond can.
\<close>

theorem names_collide_only_on_equal_inputs:
  "(s3_key t1 n1 = s3_key t2 n2 \<longleftrightarrow> t1 = t2 \<and> n1 = n2) \<and>
   (ext_ok e1 \<longrightarrow> ext_ok e2 \<longrightarrow>
      (multer_filename t1 r1 e1 = multer_filename t2 r2 e2 \<longleftrightarrow> t1 = t2 \<and> r1 = r2 \<and> e1 = e2))"
proof (intro conjI impI)
  show "s3_key t1 n1 = s3_key t2 n2 \<longleftrightarrow> t1 = t2 \<and> n1 = n2" by (rule s3_key_inj)
next
  assume e: "ext_ok e1" "ext_ok e2"
  have "multer_filename t1 r1 e1 = multer_filename t2 r2 e2 \<longleftrightarrow>
        t1 = t2 \<and> dec r1 @ e1 = dec r2 @ e2"
    unfolding multer_filename_def uniqueSuffix_def using dec_dash_split [of t1 "dec r1 @ e1" t2 "dec r2 @ e2"]
    by simp
  also have "\<dots> \<longleftrightarrow> t1 = t2 \<and> r1 = r2 \<and> e1 = e2"
    using dec_ext_split [OF e, of r1 r2] by auto
  finally show "multer_filename t1 r1 e1 = multer_filename t2 r2 e2 \<longleftrightarrow> t1 = t2 \<and> r1 = r2 \<and> e1 = e2" .
qed

theorem names_collide_only_on_equal_inputs_witness:
  "ext_ok ''.png'' \<and> ext_ok ''.mp4'' \<and>
   multer_filename 1700000000000 123456789 ''.png'' \<noteq> multer_filename 1700000000001 123456789 ''.mp4'' \<and>
   multer_filename 1700000000000 123456789 ''.png'' \<noteq> multer_filename 1700000000000 987654321 ''.png'' \<and>
   s3_key 1700000000000 ''face.png'' \<noteq> s3_key 1700000000001 ''face.png''"
proof -
  have e: "ext_ok ''.png''" "ext_ok ''.mp4''" by (simp_all add: ext_ok_def)
  from names_collide_only_on_equal_inputs
         [of 1700000000000 "''face.png''" 1700000000001 "''face.png''" "''.png''" "''.mp4''"
             123456789 123456789]
       names_collide_only_on_equal_inputs
         [of 1700000000000 "''face.png''" 1700000000000 "''face.png''" "''.png''" "''.png''"
             123456789 987654321] e
  show ?thesis by simp
qed

text \<open>
  C1 does not hold of the code. The validation failures return from inside the
  \<^verbatim>\<open>try\<close> block without throwing, so neither \<^verbatim>\<open>cleanupFiles\<close> call runs. A
  submission whose image has one byte more than 10 MiB is answered with 400 and the state
  after the request is the state before it: both stored uploads are still on the disk.
\<close>

theorem oversized_image_leaves_uploads:
  "generate_handler sample_cfg sample_world oversized_request sample_state =
     (\<lparr>status = 400, payload = Failure ''Image file must be less than 10MB''\<rparr>, sample_state) \<and>
   fs sample_state ''uploads/17-1.png'' = Some ''PNG'' \<and>
   fs sample_state ''uploads/17-2.mp4'' = Some ''MP4''"
  by (simp add: generate_handler_def sample_defs bad_request_def)

theorem oversized_image_leaves_uploads_witness:
  "status (fst (generate_handler sample_cfg sample_world oversized_request sample_state)) = 400 \<and>
   fs (snd (generate_handler sample_cfg sample_world oversized_request sample_state))
      (file_path sample_image) \<noteq> None \<and>
   fs (snd (generate_handler sample_cfg sample_world oversized_request sample_state))
      (file_path sample_video) \<noteq> None"
proof -
  have p: "file_path sample_image = ''uploads/17-1.png''" "file_path sample_video = ''uploads/17-2.mp4''"
    by (simp_all add: sample_image_def sample_video_def)
  from oversized_image_leaves_uploads show ?thesis unfolding p by simp
qed

text \<open>
  C2 does not hold of the code. The \<^verbatim>\<open>error\<close> handler of the read stream ends the
  response and unlinks nothing. A download that reaches the watermarking stage and
  whose stream then fails leaves the temporary input and the temporary output on the disk.
\<close>

theorem stream_error_leaves_temp_files:
  "status (fst (download_handler sample_cfg broken_stream_world ''task-42'' sample_state)) = 200 \<and>
   fs (snd (download_handler sample_cfg broken_stream_world ''task-42'' sample_state))
      ''/app/uploads/temp-input-task-42-1700000000001.mp4'' = Some ''VIDEO'' \<and>
   fs (snd (download_handler sample_cfg broken_stream_world ''task-42'' sample_state))
      ''/app/uploads/temp-output-task-42-1700000000002.mp4'' = Some ''VIDEO+LOGO''"
  by (simp add: download_handler_def watermark_def stream_back_def sample_defs Date_now_def emit_def
        getAuthHeaders_def generateJwtToken_def jwt_sign_def trim_def is_space_def task_url_def
        KLING_API_BASE_def truthy_def result_video_url_def or_else_def LOGO_PATH_def uploadsDir_def
        temp_name_def writeFile_def Let_def dec_small)

theorem stream_error_leaves_temp_files_witness:
  "{''/app/uploads/temp-input-task-42-1700000000001.mp4'',
    ''/app/uploads/temp-output-task-42-1700000000002.mp4''}
     \<subseteq> dom (fs (snd (download_handler sample_cfg broken_stream_world ''task-42'' sample_state)))"
  using stream_error_leaves_temp_files by (simp add: dom_def)

end
